theory Spec2Isabelle
  imports Complex_Main "HOL-Library.AList"
begin

section \<open>JSON values and the host platform\<close>

text \<open>
  The client exchanges JSON with the provider.  A decoded JSON value is a tree; an object
  lists its members in insertion order and a member is read with \<open>map_of\<close>, as the
  property read \<^verbatim>\<open>obj[key]\<close> does (\<open>None\<close> is JavaScript's \<^verbatim>\<open>undefined\<close>).  Numbers are
  the rationals: every finite double is one, and the properties below only need sign and
  integrality (a literal beyond the range of a double, which decodes to an infinity, is
  left out).  Strings are byte strings.
\<close>

datatype json =
    JNull
  | JBool bool
  | JNum rat
  | JStr string
  | JArr "json list"
  | JObj "(string \<times> json) list"

text \<open>The property read \<^verbatim>\<open>json[key]\<close> on a value that is neither null nor undefined:
  only an object decoded from JSON has own string-keyed members.\<close>

fun get_prop :: "json \<Rightarrow> string \<Rightarrow> json option" where
  "get_prop (JObj fs) k = map_of fs k"
| "get_prop _ k = None"

text \<open>JavaScript truthiness of a decoded JSON value, as \<^verbatim>\<open>if (v)\<close> tests it.\<close>

fun truthy :: "json \<Rightarrow> bool" where
  "truthy JNull = False"
| "truthy (JBool b) = b"
| "truthy (JNum n) = (n \<noteq> 0)"
| "truthy (JStr s) = (s \<noteq> [])"
| "truthy (JArr xs) = True"
| "truthy (JObj fs) = True"

datatype js_error =
    OpenAiError string
  | ZodError
  | TypeError
  | SyntaxError
  | FetchError

datatype console_event = Warn string | Error string

record http_request =
  url :: string
  method_ :: string
  headers :: "(string \<times> string) list"
  body :: string
  timeout_ms :: nat

text \<open>
  What the program takes from its platform: the JSON codec of the runtime
  (\<^verbatim>\<open>JSON.parse\<close>, \<^verbatim>\<open>JSON.stringify(v)\<close>, \<^verbatim>\<open>JSON.stringify(v, null, 2)\<close>), the network
  (\<^verbatim>\<open>fetch(url, init).then(res => res.json())\<close>: the decoded body, or the rejection of the
  transport or of the body decoder) and the API key that \<^verbatim>\<open>config.ts\<close> read from the
  environment when the module was loaded.
\<close>

record host =
  JSON_parse :: "string \<Rightarrow> js_error + json"
  JSON_stringify :: "json \<Rightarrow> string"
  JSON_stringify_indent2 :: "json \<Rightarrow> string"
  fetch_json :: "http_request \<Rightarrow> js_error + json"
  OPENAI_API_KEY :: string

definition REQUEST_TIMEOUT_MS :: nat where
  "REQUEST_TIMEOUT_MS = 10000"

definition DEFAULT_TEMPERATURE :: rat where
  "DEFAULT_TEMPERATURE = 0"

section \<open>The response envelope\<close>

datatype message =
    System string
  | Assistant string "string option"
  | Tool string
  | User string

fun content :: "message \<Rightarrow> string" where
  "content (System c) = c"
| "content (Assistant c t) = c"
| "content (Tool c) = c"
| "content (User c) = c"

datatype finish_reason = Stop | Length | Content_filter | Tool_calls

record choice =
  message :: message
  finish_reason :: finish_reason

record usage =
  completion_tokens :: rat
  prompt_tokens :: rat
  total_tokens :: rat

record response =
  id_ :: string
  model_ :: string
  choices :: "choice list"
  usage :: usage

subsection \<open>The schema combinators the envelope uses\<close>

text \<open>
  Each validator takes the value found under a key (\<open>None\<close> when the key is missing) and
  returns the validated value or the validation error.  \<^verbatim>\<open>z.string()\<close> accepts strings
  only, \<^verbatim>\<open>z.number()\<close> numbers only (with no bound and no integrality test),
  \<^verbatim>\<open>z.literal(s)\<close> the one string, \<^verbatim>\<open>.optional()\<close> a missing key as well; \<^verbatim>\<open>z.object\<close> reads
  its declared keys and drops the others; \<^verbatim>\<open>z.array\<close> validates every element and has no
  length test.
\<close>

fun z_string :: "json option \<Rightarrow> js_error + string" where
  "z_string (Some (JStr s)) = Inr s"
| "z_string _ = Inl ZodError"

fun z_string_optional :: "json option \<Rightarrow> js_error + string option" where
  "z_string_optional None = Inr None"
| "z_string_optional (Some (JStr s)) = Inr (Some s)"
| "z_string_optional _ = Inl ZodError"

fun z_number :: "json option \<Rightarrow> js_error + rat" where
  "z_number (Some (JNum n)) = Inr n"
| "z_number _ = Inl ZodError"

fun z_literal :: "string \<Rightarrow> json option \<Rightarrow> js_error + unit" where
  "z_literal s (Some (JStr t)) = (if t = s then Inr () else Inl ZodError)"
| "z_literal s _ = Inl ZodError"

fun z_array :: "(json \<Rightarrow> js_error + 'a) \<Rightarrow> json list \<Rightarrow> js_error + 'a list" where
  "z_array el [] = Inr []"
| "z_array el (x # xs) =
     (case el x of
        Inl e \<Rightarrow> Inl e
      | Inr y \<Rightarrow> (case z_array el xs of Inl e \<Rightarrow> Inl e | Inr ys \<Rightarrow> Inr (y # ys)))"

subsection \<open>messageSchema, usageSchema, responseSchema\<close>

text \<open>The discriminated union on \<^verbatim>\<open>role\<close>: the role selects the variant, whose other
  keys are then validated.\<close>

definition messageSchema :: "json option \<Rightarrow> js_error + message" where
  "messageSchema j =
     (case j of
        Some (JObj fs) \<Rightarrow>
          (case map_of fs ''role'' of
             Some (JStr r) \<Rightarrow>
               if r = ''system'' then
                 (case z_string (map_of fs ''content'') of
                    Inl e \<Rightarrow> Inl e | Inr c \<Rightarrow> Inr (System c))
               else if r = ''assistant'' then
                 (case z_string (map_of fs ''content'') of
                    Inl e \<Rightarrow> Inl e
                  | Inr c \<Rightarrow>
                      (case z_string_optional (map_of fs ''tool_calls'') of
                         Inl e \<Rightarrow> Inl e | Inr t \<Rightarrow> Inr (Assistant c t)))
               else if r = ''tool'' then
                 (case z_string (map_of fs ''content'') of
                    Inl e \<Rightarrow> Inl e | Inr c \<Rightarrow> Inr (Tool c))
               else if r = ''user'' then
                 (case z_string (map_of fs ''content'') of
                    Inl e \<Rightarrow> Inl e | Inr c \<Rightarrow> Inr (User c))
               else Inl ZodError
           | _ \<Rightarrow> Inl ZodError)
      | _ \<Rightarrow> Inl ZodError)"

definition finish_reason_schema :: "json option \<Rightarrow> js_error + finish_reason" where
  "finish_reason_schema j =
     (case z_literal ''stop'' j of
        Inr _ \<Rightarrow> Inr Stop
      | Inl _ \<Rightarrow>
     (case z_literal ''length'' j of
        Inr _ \<Rightarrow> Inr Length
      | Inl _ \<Rightarrow>
     (case z_literal ''content_filter'' j of
        Inr _ \<Rightarrow> Inr Content_filter
      | Inl _ \<Rightarrow>
     (case z_literal ''tool_calls'' j of
        Inr _ \<Rightarrow> Inr Tool_calls
      | Inl e \<Rightarrow> Inl e))))"

definition choice_schema :: "json \<Rightarrow> js_error + choice" where
  "choice_schema j =
     (case j of
        JObj fs \<Rightarrow>
          (case messageSchema (map_of fs ''message'') of
             Inl e \<Rightarrow> Inl e
           | Inr m \<Rightarrow>
               (case finish_reason_schema (map_of fs ''finish_reason'') of
                  Inl e \<Rightarrow> Inl e
                | Inr f \<Rightarrow> Inr \<lparr>message = m, finish_reason = f\<rparr>))
      | _ \<Rightarrow> Inl ZodError)"

definition usageSchema :: "json option \<Rightarrow> js_error + usage" where
  "usageSchema j =
     (case j of
        Some (JObj fs) \<Rightarrow>
          (case z_number (map_of fs ''completion_tokens'') of
             Inl e \<Rightarrow> Inl e
           | Inr c \<Rightarrow>
               (case z_number (map_of fs ''prompt_tokens'') of
                  Inl e \<Rightarrow> Inl e
                | Inr p \<Rightarrow>
                    (case z_number (map_of fs ''total_tokens'') of
                       Inl e \<Rightarrow> Inl e
                     | Inr t \<Rightarrow>
                         Inr \<lparr>completion_tokens = c, prompt_tokens = p, total_tokens = t\<rparr>)))
      | _ \<Rightarrow> Inl ZodError)"

definition choices_schema :: "json option \<Rightarrow> js_error + choice list" where
  "choices_schema j =
     (case j of
        Some (JArr xs) \<Rightarrow> z_array choice_schema xs
      | _ \<Rightarrow> Inl ZodError)"

definition responseSchema :: "json \<Rightarrow> js_error + response" where
  "responseSchema j =
     (case j of
        JObj fs \<Rightarrow>
          (case z_string (map_of fs ''id'') of
             Inl e \<Rightarrow> Inl e
           | Inr i \<Rightarrow>
          (case z_string (map_of fs ''model'') of
             Inl e \<Rightarrow> Inl e
           | Inr m \<Rightarrow>
          (case z_literal ''chat.completion'' (map_of fs ''object'') of
             Inl e \<Rightarrow> Inl e
           | Inr _ \<Rightarrow>
          (case choices_schema (map_of fs ''choices'') of
             Inl e \<Rightarrow> Inl e
           | Inr cs \<Rightarrow>
          (case usageSchema (map_of fs ''usage'') of
             Inl e \<Rightarrow> Inl e
           | Inr u \<Rightarrow> Inr \<lparr>id_ = i, model_ = m, choices = cs, usage = u\<rparr>)))))
      | _ \<Rightarrow> Inl ZodError)"

section \<open>Request configuration\<close>

text \<open>
  \<^verbatim>\<open>OpenAiRequestConfig\<close> and \<^verbatim>\<open>Partial<OpenAiRequestConfig>\<close> are objects with optional
  properties.  A property of such an object is absent, present with the value
  \<^verbatim>\<open>undefined\<close> (which the optional type admits), or present with a value.
\<close>

datatype 'a property = Absent | Undefined | Value 'a

datatype response_format = Json_object

record OpenAiRequestConfig =
  model :: "string property"
  response_format :: "response_format property"
  frequency_penalty :: "rat property"
  temperature :: "rat property"
  top_p :: "rat property"

definition DEFAULT_REQUEST_CONFIG :: OpenAiRequestConfig where
  "DEFAULT_REQUEST_CONFIG =
     \<lparr>model = Value ''gpt-4-1106-preview'', response_format = Absent,
      frequency_penalty = Absent, temperature = Value DEFAULT_TEMPERATURE, top_p = Absent\<rparr>"

text \<open>The object literal \<^verbatim>\<open>{}\<close>.\<close>

definition no_props :: OpenAiRequestConfig where
  "no_props =
     \<lparr>model = Absent, response_format = Absent, frequency_penalty = Absent,
      temperature = Absent, top_p = Absent\<rparr>"

text \<open>
  Object spread \<^verbatim>\<open>{...a, ...b}\<close> copies every own property of \<open>b\<close> over \<open>a\<close>, a property
  whose value is \<^verbatim>\<open>undefined\<close> included; spreading \<^verbatim>\<open>undefined\<close> copies nothing.
\<close>

fun overlay :: "'a property \<Rightarrow> 'a property \<Rightarrow> 'a property" where
  "overlay a Absent = a"
| "overlay a b = b"

definition spread :: "OpenAiRequestConfig \<Rightarrow> OpenAiRequestConfig \<Rightarrow> OpenAiRequestConfig" where
  "spread a b =
     \<lparr>model = overlay (model a) (model b),
      response_format = overlay (response_format a) (response_format b),
      frequency_penalty = overlay (frequency_penalty a) (frequency_penalty b),
      temperature = overlay (temperature a) (temperature b),
      top_p = overlay (top_p a) (top_p b)\<rparr>"

fun spread_optional :: "OpenAiRequestConfig \<Rightarrow> OpenAiRequestConfig option \<Rightarrow> OpenAiRequestConfig" where
  "spread_optional a None = a"
| "spread_optional a (Some b) = spread a b"

section \<open>The request body\<close>

text \<open>
  \<^verbatim>\<open>JSON.stringify({...config, messages})\<close> serialises the properties that hold a value and
  skips those that are absent or \<^verbatim>\<open>undefined\<close>.  The runtime lists the members in insertion
  order, which for the caller's own keys is the order of the caller's object literal; the
  record does not keep that order, so the members are listed in the order of the type's
  declaration, \<^verbatim>\<open>messages\<close> last.  The properties below read members by key.
\<close>

fun json_member :: "string \<Rightarrow> ('a \<Rightarrow> json) \<Rightarrow> 'a property \<Rightarrow> (string \<times> json) list" where
  "json_member k enc (Value v) = [(k, enc v)]"
| "json_member k enc _ = []"

fun response_format_json :: "response_format \<Rightarrow> json" where
  "response_format_json Json_object = JObj [(''type'', JStr ''json_object'')]"

fun message_json :: "message \<Rightarrow> json" where
  "message_json (System c) = JObj [(''role'', JStr ''system''), (''content'', JStr c)]"
| "message_json (Assistant c None) = JObj [(''role'', JStr ''assistant''), (''content'', JStr c)]"
| "message_json (Assistant c (Some t)) =
     JObj [(''role'', JStr ''assistant''), (''content'', JStr c), (''tool_calls'', JStr t)]"
| "message_json (Tool c) = JObj [(''role'', JStr ''tool''), (''content'', JStr c)]"
| "message_json (User c) = JObj [(''role'', JStr ''user''), (''content'', JStr c)]"

definition request_members :: "OpenAiRequestConfig \<Rightarrow> message list \<Rightarrow> (string \<times> json) list" where
  "request_members config messages =
     json_member ''model'' JStr (model config) @
     json_member ''response_format'' response_format_json (response_format config) @
     json_member ''frequency_penalty'' JNum (frequency_penalty config) @
     json_member ''temperature'' JNum (temperature config) @
     json_member ''top_p'' JNum (top_p config) @
     [(''messages'', JArr (map message_json messages))]"

section \<open>send\<close>

definition send_request :: "host \<Rightarrow> OpenAiRequestConfig \<Rightarrow> message list \<Rightarrow> http_request" where
  "send_request h config messages =
     \<lparr>url = ''https://api.openai.com/v1/chat/completions'',
      method_ = ''POST'',
      headers = [(''Content-Type'', ''application/json''),
                 (''Authorization'', ''Bearer '' @ OPENAI_API_KEY h)],
      body = JSON_stringify h (JObj (request_members config messages)),
      timeout_ms = REQUEST_TIMEOUT_MS\<rparr>"

text \<open>
  The decoded body is tested with \<^verbatim>\<open>if (json["error"])\<close>: reading a property of
  \<^verbatim>\<open>null\<close> throws a TypeError, and the test passes when the property holds a truthy
  value.  Otherwise the body goes through \<open>responseSchema\<close>.
\<close>

definition send :: "host \<Rightarrow> OpenAiRequestConfig \<Rightarrow> message list \<Rightarrow> js_error + response" where
  "send h config messages =
     (case fetch_json h (send_request h config messages) of
        Inl e \<Rightarrow> Inl e
      | Inr json \<Rightarrow>
          (case json of
             JNull \<Rightarrow> Inl TypeError
           | _ \<Rightarrow>
               (case get_prop json ''error'' of
                  None \<Rightarrow> responseSchema json
                | Some v \<Rightarrow>
                    if truthy v then Inl (OpenAiError (JSON_stringify h json))
                    else responseSchema json)))"

section \<open>query\<close>

text \<open>
  The caller's schema is any object with zod's interface: \<open>parse\<close> validates a decoded
  JSON value and returns the typed value or throws, and \<open>zodToJsonSchema\<close> is the JSON
  Schema that the conversion utility derives from it.
\<close>

record 'a ZodSchema =
  parse :: "json \<Rightarrow> js_error + 'a"
  zodToJsonSchema :: json

record 'a query_config =
  systemPrompt :: "string option"
  openAiConfig :: "OpenAiRequestConfig option"
  schema :: "'a ZodSchema option"

text \<open>Optional chaining \<^verbatim>\<open>config?.field\<close>.\<close>

fun opt_chain :: "'c option \<Rightarrow> ('c \<Rightarrow> 'b option) \<Rightarrow> 'b option" where
  "opt_chain None f = None"
| "opt_chain (Some c) f = f c"

text \<open>\<open>query\<close> resolves with the content as it is (no schema) or with the schema's
  output.\<close>

datatype 'a answer = Raw string | Parsed 'a

text \<open>How a call ends: the promise resolves, the promise rejects, or the process
  exits with a status.\<close>

datatype 'a outcome = Resolved 'a | Rejected js_error | Exited nat

record 'a run =
  sent :: "http_request list"
  console :: "console_event list"
  outcome :: "'a answer outcome"

definition push :: "'a list \<Rightarrow> 'a \<Rightarrow> 'a list" where
  "push xs x = xs @ [x]"

text \<open>Lines 114 to 124: the message list.  A string is truthy when it is not empty;
  a schema object is always truthy.\<close>

definition query_messages :: "host \<Rightarrow> string \<Rightarrow> 'a query_config option \<Rightarrow> message list" where
  "query_messages h userPrompt config =
     (let messages0 = [];
          messages1 =
            (case opt_chain config schema of
               Some s \<Rightarrow>
                 push messages0
                   (System (''Only provide responses in valid JSON in terms of '' @
                            JSON_stringify h (zodToJsonSchema s) @ ''.''))
             | None \<Rightarrow> messages0);
          messages2 =
            (case opt_chain config systemPrompt of
               Some p \<Rightarrow> if p \<noteq> [] then push messages1 (System p) else messages1
             | None \<Rightarrow> messages1)
      in push messages2 (User userPrompt))"

text \<open>Line 127: the merged configuration.\<close>

definition query_request_config :: "'a query_config option \<Rightarrow> OpenAiRequestConfig" where
  "query_request_config config =
     spread_optional
       (spread DEFAULT_REQUEST_CONFIG
          (case opt_chain config schema of
             Some s \<Rightarrow> no_props\<lparr>response_format := Value Json_object\<rparr>
           | None \<Rightarrow> no_props))
       (opt_chain config openAiConfig)"

fun finish_reason_text :: "finish_reason \<Rightarrow> string" where
  "finish_reason_text Stop = ''stop''"
| "finish_reason_text Length = ''length''"
| "finish_reason_text Content_filter = ''content_filter''"
| "finish_reason_text Tool_calls = ''tool_calls''"

text \<open>
  Lines 131 to 150, what \<open>query\<close> does with the validated response: the console
  events and the outcome.  \<^verbatim>\<open>response.choices[0]\<close> of an empty array is
  \<^verbatim>\<open>undefined\<close>, and reading its \<^verbatim>\<open>finish_reason\<close> throws a TypeError outside the
  \<^verbatim>\<open>try\<close> block.  Inside it, whatever \<^verbatim>\<open>JSON.parse\<close> or \<^verbatim>\<open>schema.parse\<close> throws is
  caught; the handler parses the content again to print it indented, prints it as it
  is when that throws, and exits with status 1.
\<close>

definition query_respond ::
  "host \<Rightarrow> 'a ZodSchema option \<Rightarrow> response \<Rightarrow> console_event list \<times> 'a answer outcome" where
  "query_respond h sch response =
     (case choices response of
        [] \<Rightarrow> ([], Rejected TypeError)
      | choice # _ \<Rightarrow>
          (let warned =
                 (if finish_reason choice \<noteq> Stop
                  then [Warn (''Unexpected finish reason: '' @
                              finish_reason_text (finish_reason choice))]
                  else []);
               text = content (message choice);
               tried =
                 (case sch of
                    Some s \<Rightarrow>
                      (case JSON_parse h text of
                         Inl e \<Rightarrow> Inl e
                       | Inr v \<Rightarrow>
                           (case parse s v of Inl e \<Rightarrow> Inl e | Inr t \<Rightarrow> Inr (Parsed t)))
                  | None \<Rightarrow> Inr (Raw text))
           in case tried of
                Inr a \<Rightarrow> (warned, Resolved a)
              | Inl e \<Rightarrow>
                  (push warned
                     (case JSON_parse h text of
                        Inr v \<Rightarrow> Error (''Could not parse: '' @ JSON_stringify_indent2 h v)
                      | Inl _ \<Rightarrow> Error (''Could not parse: '' @ text)),
                   Exited 1)))"

definition query :: "host \<Rightarrow> string \<Rightarrow> 'a query_config option \<Rightarrow> 'a run" where
  "query h userPrompt config =
     (let sch = opt_chain config schema;
          messages = query_messages h userPrompt config;
          request_config = query_request_config config;
          request = send_request h request_config messages
      in case send h request_config messages of
           Inl e \<Rightarrow> \<lparr>sent = [request], console = [], outcome = Rejected e\<rparr>
         | Inr response \<Rightarrow>
             (case query_respond h sch response of
                (events, out) \<Rightarrow> \<lparr>sent = [request], console = events, outcome = out\<rparr>))"

section \<open>The envelope shape, as the interface describes it\<close>

text \<open>
  The shape of a reply, written as a predicate on the decoded body and independently of
  the validators above: an object whose \<^verbatim>\<open>id\<close> and \<^verbatim>\<open>model\<close> are strings, whose
  \<^verbatim>\<open>object\<close> is the tag \<^verbatim>\<open>chat.completion\<close>, whose \<^verbatim>\<open>choices\<close> is an array of choices
  (a message of one of the four roles and one of the four finish reasons) and whose
  \<^verbatim>\<open>usage\<close> holds three numbers.  The array may be empty and the numbers are any numbers.
\<close>

fun is_string :: "json option \<Rightarrow> bool" where
  "is_string (Some (JStr s)) = True"
| "is_string _ = False"

fun is_number :: "json option \<Rightarrow> bool" where
  "is_number (Some (JNum n)) = True"
| "is_number _ = False"

definition message_shape :: "json option \<Rightarrow> bool" where
  "message_shape j =
     (case j of
        Some (JObj fs) \<Rightarrow>
          is_string (map_of fs ''content'') \<and>
          (map_of fs ''role'' = Some (JStr ''system'') \<or>
           map_of fs ''role'' = Some (JStr ''user'') \<or>
           map_of fs ''role'' = Some (JStr ''tool'') \<or>
           (map_of fs ''role'' = Some (JStr ''assistant'') \<and>
            (map_of fs ''tool_calls'' = None \<or> is_string (map_of fs ''tool_calls''))))
      | _ \<Rightarrow> False)"

definition choice_shape :: "json \<Rightarrow> bool" where
  "choice_shape j =
     (case j of
        JObj fs \<Rightarrow>
          message_shape (map_of fs ''message'') \<and>
          (map_of fs ''finish_reason'' = Some (JStr ''stop'') \<or>
           map_of fs ''finish_reason'' = Some (JStr ''length'') \<or>
           map_of fs ''finish_reason'' = Some (JStr ''content_filter'') \<or>
           map_of fs ''finish_reason'' = Some (JStr ''tool_calls''))
      | _ \<Rightarrow> False)"

definition usage_shape :: "json option \<Rightarrow> bool" where
  "usage_shape j =
     (case j of
        Some (JObj fs) \<Rightarrow>
          is_number (map_of fs ''completion_tokens'') \<and>
          is_number (map_of fs ''prompt_tokens'') \<and>
          is_number (map_of fs ''total_tokens'')
      | _ \<Rightarrow> False)"

definition envelope_shape :: "json \<Rightarrow> bool" where
  "envelope_shape j =
     (case j of
        JObj fs \<Rightarrow>
          is_string (map_of fs ''id'') \<and>
          is_string (map_of fs ''model'') \<and>
          map_of fs ''object'' = Some (JStr ''chat.completion'') \<and>
          (case map_of fs ''choices'' of
             Some (JArr cs) \<Rightarrow> list_all choice_shape cs
           | _ \<Rightarrow> False) \<and>
          usage_shape (map_of fs ''usage'')
      | _ \<Rightarrow> False)"

section \<open>A reference host and the example of the entry script\<close>

text \<open>
  The examples below run \<open>query\<close> on a concrete host.  Its JSON codec is a compact
  serialiser, the serialiser with an indentation of two spaces, and a recursive-descent
  parser (number literals without exponent; the escapes of the quote, the backslash, the
  slash, the newline, the carriage return and the tab); its network answers every request
  with one fixed body.
\<close>

definition digit_char :: "nat \<Rightarrow> char" where
  "digit_char n = ''0123456789'' ! n"

function show_nat :: "nat \<Rightarrow> string" where
  "show_nat n = (if n < 10 then [digit_char n] else show_nat (n div 10) @ [digit_char (n mod 10)])"
  by pat_completeness auto
termination
  by (relation "measure id") auto

fun frac_digits :: "nat \<Rightarrow> nat \<Rightarrow> nat \<Rightarrow> string" where
  "frac_digits 0 r q = []"
| "frac_digits (Suc fuel) r q =
     (if r = 0 then [] else digit_char (r * 10 div q) # frac_digits fuel (r * 10 mod q) q)"

definition show_num :: "rat \<Rightarrow> string" where
  "show_num x =
     (case quotient_of x of
        (p, q) \<Rightarrow>
          (if p < 0 then ''-'' else []) @
          show_nat (nat \<bar>p\<bar> div nat q) @
          (if nat \<bar>p\<bar> mod nat q = 0 then []
           else ''.'' @ frac_digits 17 (nat \<bar>p\<bar> mod nat q) (nat q)))"

fun escape_char :: "char \<Rightarrow> string" where
  "escape_char c =
     (if c = CHR 0x22 then [CHR 0x5C, CHR 0x22]
      else if c = CHR 0x5C then [CHR 0x5C, CHR 0x5C]
      else if c = CHR 0x0A then [CHR 0x5C, CHR ''n'']
      else if c = CHR 0x0D then [CHR 0x5C, CHR ''r'']
      else if c = CHR 0x09 then [CHR 0x5C, CHR ''t'']
      else [c])"

definition quote :: "string \<Rightarrow> string" where
  "quote s = [CHR 0x22] @ concat (map escape_char s) @ [CHR 0x22]"

fun join :: "string \<Rightarrow> string list \<Rightarrow> string" where
  "join sep [] = []"
| "join sep [x] = x"
| "join sep (x # y # ys) = x @ sep @ join sep (y # ys)"

fun stringify :: "json \<Rightarrow> string" where
  "stringify JNull = ''null''"
| "stringify (JBool b) = (if b then ''true'' else ''false'')"
| "stringify (JNum n) = show_num n"
| "stringify (JStr s) = quote s"
| "stringify (JArr xs) = ''['' @ join '','' (map stringify xs) @ '']''"
| "stringify (JObj fs) =
     ''{'' @ join '','' (map (\<lambda>kv. quote (fst kv) @ '':'' @ stringify (snd kv)) fs) @ ''}''"

fun stringify_indent :: "nat \<Rightarrow> json \<Rightarrow> string" where
  "stringify_indent i (JArr xs) =
     (if xs = [] then ''[]''
      else ''['' @ [CHR 0x0A] @
           join ('','' @ [CHR 0x0A])
             (map (\<lambda>x. replicate (i + 2) CHR '' '' @ stringify_indent (i + 2) x) xs) @
           [CHR 0x0A] @ replicate i CHR '' '' @ '']'')"
| "stringify_indent i (JObj fs) =
     (if fs = [] then ''{}''
      else ''{'' @ [CHR 0x0A] @
           join ('','' @ [CHR 0x0A])
             (map (\<lambda>kv. replicate (i + 2) CHR '' '' @ quote (fst kv) @ '': '' @
                          stringify_indent (i + 2) (snd kv)) fs) @
           [CHR 0x0A] @ replicate i CHR '' '' @ ''}'')"
| "stringify_indent i v = stringify v"

definition is_ws :: "char \<Rightarrow> bool" where
  "is_ws c = (c = CHR '' '' \<or> c = CHR 0x0A \<or> c = CHR 0x0D \<or> c = CHR 0x09)"

definition skip_ws :: "string \<Rightarrow> string" where
  "skip_ws cs = dropWhile is_ws cs"

definition digit_value :: "char \<Rightarrow> nat option" where
  "digit_value c =
     (if (48 :: nat) \<le> of_char c \<and> of_char c \<le> (57 :: nat) then Some (of_char c - 48)
      else None)"

fun unescape :: "char \<Rightarrow> char option" where
  "unescape c =
     (if c = CHR 0x22 then Some (CHR 0x22)
      else if c = CHR 0x5C then Some (CHR 0x5C)
      else if c = CHR ''/'' then Some CHR ''/''
      else if c = CHR ''n'' then Some (CHR 0x0A)
      else if c = CHR ''r'' then Some (CHR 0x0D)
      else if c = CHR ''t'' then Some (CHR 0x09)
      else None)"

text \<open>The characters of a string literal, after its opening quote.\<close>

fun parse_chars :: "string \<Rightarrow> string \<Rightarrow> (string \<times> string) option" where
  "parse_chars acc [] = None"
| "parse_chars acc [c] = (if c = CHR 0x22 then Some (rev acc, []) else None)"
| "parse_chars acc (c # d # cs) =
     (if c = CHR 0x22 then Some (rev acc, d # cs)
      else if c = CHR 0x5C then
        (case unescape d of None \<Rightarrow> None | Some u \<Rightarrow> parse_chars (u # acc) cs)
      else if of_char c < (32 :: nat) then None
      else parse_chars (c # acc) (d # cs))"

fun parse_digits :: "nat \<Rightarrow> nat \<Rightarrow> string \<Rightarrow> nat \<times> nat \<times> string" where
  "parse_digits acc k [] = (acc, k, [])"
| "parse_digits acc k (c # cs) =
     (case digit_value c of
        None \<Rightarrow> (acc, k, c # cs)
      | Some d \<Rightarrow> parse_digits (acc * 10 + d) (Suc k) cs)"

definition parse_number :: "string \<Rightarrow> (json \<times> string) option" where
  "parse_number cs =
     (let neg = (take 1 cs = ''-'');
          cs1 = (if neg then drop 1 cs else cs)
      in case parse_digits 0 0 cs1 of
           (a, k, r) \<Rightarrow>
             if k = 0 \<or> (k > 1 \<and> take 1 cs1 = ''0'') then None
             else if take 1 r = ''.'' then
               (case parse_digits 0 0 (drop 1 r) of
                  (b, m, r') \<Rightarrow>
                    if m = 0 then None
                    else Some (JNum ((if neg then - 1 else 1) *
                                     (of_nat a + of_nat b / 10 ^ m)), r'))
             else Some (JNum ((if neg then - 1 else 1) * of_nat a), r))"

text \<open>The parser proper.  The first argument bounds the nesting of calls; the length of
  the input is enough, since every call consumes a character.  A repeated key keeps its
  place and takes the later value.\<close>

fun parse_value :: "nat \<Rightarrow> string \<Rightarrow> (json \<times> string) option"
  and parse_elements :: "nat \<Rightarrow> json list \<Rightarrow> string \<Rightarrow> (json \<times> string) option"
  and parse_members :: "nat \<Rightarrow> (string \<times> json) list \<Rightarrow> string \<Rightarrow> (json \<times> string) option"
where
  "parse_value 0 cs = None"
| "parse_value (Suc n) cs =
     (case skip_ws cs of
        [] \<Rightarrow> None
      | c # r \<Rightarrow>
          if c = CHR 0x22 then
            (case parse_chars [] r of None \<Rightarrow> None | Some (s, r') \<Rightarrow> Some (JStr s, r'))
          else if c = CHR ''['' then
            (if take 1 (skip_ws r) = '']'' then Some (JArr [], drop 1 (skip_ws r))
             else parse_elements n [] r)
          else if c = CHR ''{'' then
            (if take 1 (skip_ws r) = ''}'' then Some (JObj [], drop 1 (skip_ws r))
             else parse_members n [] r)
          else if take 4 (c # r) = ''null'' then Some (JNull, drop 4 (c # r))
          else if take 4 (c # r) = ''true'' then Some (JBool True, drop 4 (c # r))
          else if take 5 (c # r) = ''false'' then Some (JBool False, drop 5 (c # r))
          else parse_number (c # r))"
| "parse_elements 0 acc cs = None"
| "parse_elements (Suc n) acc cs =
     (case parse_value n cs of
        None \<Rightarrow> None
      | Some (v, r) \<Rightarrow>
          if take 1 (skip_ws r) = '','' then parse_elements n (acc @ [v]) (drop 1 (skip_ws r))
          else if take 1 (skip_ws r) = '']'' then Some (JArr (acc @ [v]), drop 1 (skip_ws r))
          else None)"
| "parse_members 0 acc cs = None"
| "parse_members (Suc n) acc cs =
     (if take 1 (skip_ws cs) = [CHR 0x22] then
        (case parse_chars [] (drop 1 (skip_ws cs)) of
           None \<Rightarrow> None
         | Some (k, r) \<Rightarrow>
             if take 1 (skip_ws r) = '':'' then
               (case parse_value n (drop 1 (skip_ws r)) of
                  None \<Rightarrow> None
                | Some (v, r') \<Rightarrow>
                    if take 1 (skip_ws r') = '','' then
                      parse_members n (AList.update k v acc) (drop 1 (skip_ws r'))
                    else if take 1 (skip_ws r') = ''}'' then
                      Some (JObj (AList.update k v acc), drop 1 (skip_ws r'))
                    else None)
             else None)
      else None)"

definition json_parse :: "string \<Rightarrow> js_error + json" where
  "json_parse s =
     (case parse_value (Suc (length s)) s of
        None \<Rightarrow> Inl SyntaxError
      | Some (v, r) \<Rightarrow> if skip_ws r = [] then Inr v else Inl SyntaxError)"

definition reference_host :: "json \<Rightarrow> host" where
  "reference_host reply =
     \<lparr>JSON_parse = json_parse,
      JSON_stringify = stringify,
      JSON_stringify_indent2 = stringify_indent 0,
      fetch_json = (\<lambda>request. Inr reply),
      OPENAI_API_KEY = ''sk-test''\<rparr>"

text \<open>A reply of the provider with one choice: the assistant's text and the finish
  reason.\<close>

definition completion_members :: "string \<Rightarrow> string \<Rightarrow> (string \<times> json) list" where
  "completion_members c f =
     [(''id'', JStr ''chatcmpl-1''),
      (''object'', JStr ''chat.completion''),
      (''created'', JNum 1700000000),
      (''model'', JStr ''gpt-4-1106-preview''),
      (''choices'',
       JArr [JObj [(''index'', JNum 0),
                   (''message'', JObj [(''role'', JStr ''assistant''), (''content'', JStr c)]),
                   (''finish_reason'', JStr f)]]),
      (''usage'',
       JObj [(''prompt_tokens'', JNum 12), (''completion_tokens'', JNum 20),
             (''total_tokens'', JNum 32)])]"

definition completion :: "string \<Rightarrow> string \<Rightarrow> json" where
  "completion c f = JObj (completion_members c f)"

definition completion_response :: "string \<Rightarrow> finish_reason \<Rightarrow> response" where
  "completion_response c f =
     \<lparr>id_ = ''chatcmpl-1'', model_ = ''gpt-4-1106-preview'',
      choices = [\<lparr>message = Assistant c None, finish_reason = f\<rparr>],
      usage = \<lparr>completion_tokens = 20, prompt_tokens = 12, total_tokens = 32\<rparr>\<rparr>"

text \<open>A reply with no choice, a negative count and a fractional count.\<close>

definition odd_reply :: json where
  "odd_reply =
     JObj [(''id'', JStr ''chatcmpl-2''),
           (''object'', JStr ''chat.completion''),
           (''model'', JStr ''gpt-4-1106-preview''),
           (''choices'', JArr []),
           (''usage'',
            JObj [(''prompt_tokens'', JNum (1 / 2)), (''completion_tokens'', JNum (- 1)),
                  (''total_tokens'', JNum (- 1 / 2))])]"

definition odd_response :: response where
  "odd_response =
     \<lparr>id_ = ''chatcmpl-2'', model_ = ''gpt-4-1106-preview'', choices = [],
      usage = \<lparr>completion_tokens = - 1, prompt_tokens = 1 / 2, total_tokens = - 1 / 2\<rparr>\<rparr>"

text \<open>
  The schema of the entry script, \<^verbatim>\<open>z.object({body: z.string(), punchline: z.string()})\<close>:
  its output holds the two declared keys, whatever else the input holds, and its JSON
  Schema is the one the conversion utility prints for it.
\<close>

definition joke_json_schema :: json where
  "joke_json_schema =
     JObj [(''type'', JStr ''object''),
           (''properties'',
            JObj [(''body'', JObj [(''type'', JStr ''string'')]),
                  (''punchline'', JObj [(''type'', JStr ''string'')])]),
           (''required'', JArr [JStr ''body'', JStr ''punchline'']),
           (''additionalProperties'', JBool False),
           (''$schema'', JStr ''http://json-schema.org/draft-07/schema#'')]"

definition joke_schema :: "json ZodSchema" where
  "joke_schema =
     \<lparr>parse =
        (\<lambda>j. case j of
               JObj fs \<Rightarrow>
                 (case z_string (map_of fs ''body'') of
                    Inl e \<Rightarrow> Inl e
                  | Inr b \<Rightarrow>
                      (case z_string (map_of fs ''punchline'') of
                         Inl e \<Rightarrow> Inl e
                       | Inr p \<Rightarrow> Inr (JObj [(''body'', JStr b), (''punchline'', JStr p)])))
             | _ \<Rightarrow> Inl ZodError),
      zodToJsonSchema = joke_json_schema\<rparr>"

definition joke_config :: "json query_config" where
  "joke_config = \<lparr>systemPrompt = None, openAiConfig = None, schema = Some joke_schema\<rparr>"

definition joke :: json where
  "joke =
     JObj [(''body'', JStr ''Why do skeletons not fight each other?''),
           (''punchline'', JStr ''They have no guts.'')]"

definition joke_with_rating :: json where
  "joke_with_rating =
     JObj [(''body'', JStr ''Why do skeletons not fight each other?''),
           (''punchline'', JStr ''They have no guts.''),
           (''rating'', JNum 5)]"

definition warm_config :: "json query_config" where
  "warm_config =
     \<lparr>systemPrompt = None,
      openAiConfig = Some (no_props\<lparr>temperature := Value (7 / 10)\<rparr>),
      schema = None\<rparr>"

definition warm_joke_config :: "json query_config" where
  "warm_joke_config = joke_config\<lparr>openAiConfig := Some (no_props\<lparr>temperature := Value (7 / 10)\<rparr>)\<rparr>"

definition unset_format_config :: "json query_config" where
  "unset_format_config =
     joke_config\<lparr>openAiConfig := Some (no_props\<lparr>response_format := Undefined\<rparr>)\<rparr>"

definition empty_system_config :: "json query_config" where
  "empty_system_config = \<lparr>systemPrompt = Some [], openAiConfig = None, schema = None\<rparr>"

definition brief_joke_config :: "json query_config" where
  "brief_joke_config = joke_config\<lparr>systemPrompt := Some ''Be brief.''\<rparr>"

definition error_reply :: json where
  "error_reply =
     JObj [(''error'',
            JObj [(''message'', JStr ''Incorrect API key provided''),
                  (''type'', JStr ''invalid_request_error'')])]"

definition null_error_reply :: json where
  "null_error_reply = JObj ((''error'', JNull) # completion_members ''hi'' ''stop'')"

section \<open>Facts about the model\<close>

subsection \<open>What a call sends and how it ends\<close>

lemma query_sent:
  "sent (query h userPrompt config) =
     [send_request h (query_request_config config) (query_messages h userPrompt config)]"
  by (simp add: query_def Let_def split: sum.splits prod.splits)

lemma query_outcome:
  assumes "send h (query_request_config config) (query_messages h userPrompt config) = Inr response"
  shows "outcome (query h userPrompt config) =
           snd (query_respond h (opt_chain config schema) response)"
  using assms by (simp add: query_def Let_def split: prod.splits)

lemma query_console:
  assumes "send h (query_request_config config) (query_messages h userPrompt config) = Inr response"
  shows "console (query h userPrompt config) =
           fst (query_respond h (opt_chain config schema) response)"
  using assms by (simp add: query_def Let_def split: prod.splits)

lemma query_rejected:
  assumes "send h (query_request_config config) (query_messages h userPrompt config) = Inl e"
  shows "outcome (query h userPrompt config) = Rejected e \<and> console (query h userPrompt config) = []"
  using assms by (simp add: query_def Let_def)

subsection \<open>The members of the request body\<close>

lemma map_of_json_member:
  "map_of (json_member k enc p @ rest) k' =
     (case p of Value v \<Rightarrow> if k' = k then Some (enc v) else map_of rest k' | _ \<Rightarrow> map_of rest k')"
  by (cases p) auto

lemma map_of_request_members_response_format:
  "map_of (request_members c ms) ''response_format'' =
     (case response_format c of Value v \<Rightarrow> Some (response_format_json v) | _ \<Rightarrow> None)"
  by (simp add: request_members_def map_of_json_member del: map_of_append
      split: property.splits)

lemma map_of_request_members_messages:
  "map_of (request_members c ms) ''messages'' = Some (JArr (map message_json ms))"
  by (simp add: request_members_def map_of_json_member del: map_of_append
      split: property.splits)

lemma overlay_cases: "overlay a b = (if b = Absent then a else b)"
  by (cases b) auto

subsection \<open>Which bodies the validators accept\<close>

lemma z_string_accepts: "(\<exists>s. z_string j = Inr s) = is_string j"
  by (cases j rule: z_string.cases) auto

lemma z_string_optional_accepts: "(\<exists>s. z_string_optional j = Inr s) = (j = None \<or> is_string j)"
  by (cases j rule: z_string_optional.cases) auto

lemma z_number_accepts: "(\<exists>n. z_number j = Inr n) = is_number j"
  by (cases j rule: z_number.cases) auto

lemma z_literal_accepts: "(\<exists>u. z_literal s j = Inr u) = (j = Some (JStr s))"
proof (cases j)
  case None
  then show ?thesis by simp
next
  case (Some v)
  then show ?thesis by (cases v) auto
qed

lemma z_literal_unit: "(z_literal s j = Inr ()) = (j = Some (JStr s))"
  using z_literal_accepts [of s j] by simp

lemma z_array_accepts:
  "(\<exists>ys. z_array el xs = Inr ys) = list_all (\<lambda>x. \<exists>y. el x = Inr y) xs"
proof (induction xs)
  case Nil
  show ?case by simp
next
  case (Cons x xs)
  show ?case
  proof (cases "el x")
    case (Inl e)
    then show ?thesis by simp
  next
    case (Inr y)
    show ?thesis
    proof (cases "z_array el xs")
      case (Inl e)
      with Inr Cons show ?thesis by auto
    next
      case (Inr ys)
      with \<open>el x = Inr y\<close> Cons show ?thesis by auto
    qed
  qed
qed

lemma content_step_accepts:
  "(\<exists>m. (case z_string x of Inl e \<Rightarrow> Inl e | Inr c \<Rightarrow> Inr (f c)) = Inr m) = is_string x"
  by (cases x rule: z_string.cases) auto

lemma assistant_step_accepts:
  "(\<exists>m. (case z_string x of
            Inl e \<Rightarrow> Inl e
          | Inr c \<Rightarrow> (case z_string_optional y of Inl e \<Rightarrow> Inl e | Inr t \<Rightarrow> Inr (f c t))) = Inr m)
     = (is_string x \<and> (y = None \<or> is_string y))"
  by (cases x rule: z_string.cases; cases y rule: z_string_optional.cases) auto

lemma messageSchema_role:
  assumes "map_of fs ''role'' = Some (JStr r)"
  shows "messageSchema (Some (JObj fs)) =
     (if r = ''system'' then
        (case z_string (map_of fs ''content'') of Inl e \<Rightarrow> Inl e | Inr c \<Rightarrow> Inr (System c))
      else if r = ''assistant'' then
        (case z_string (map_of fs ''content'') of
           Inl e \<Rightarrow> Inl e
         | Inr c \<Rightarrow>
             (case z_string_optional (map_of fs ''tool_calls'') of
                Inl e \<Rightarrow> Inl e | Inr t \<Rightarrow> Inr (Assistant c t)))
      else if r = ''tool'' then
        (case z_string (map_of fs ''content'') of Inl e \<Rightarrow> Inl e | Inr c \<Rightarrow> Inr (Tool c))
      else if r = ''user'' then
        (case z_string (map_of fs ''content'') of Inl e \<Rightarrow> Inl e | Inr c \<Rightarrow> Inr (User c))
      else Inl ZodError)"
  unfolding messageSchema_def using assms by simp

lemma message_shape_role:
  assumes "map_of fs ''role'' = Some (JStr r)"
  shows "message_shape (Some (JObj fs)) =
     (is_string (map_of fs ''content'') \<and>
      (r = ''system'' \<or> r = ''user'' \<or> r = ''tool'' \<or>
       (r = ''assistant'' \<and>
        (map_of fs ''tool_calls'' = None \<or> is_string (map_of fs ''tool_calls'')))))"
  unfolding message_shape_def using assms by simp

lemma messageSchema_accepts_role:
  assumes "map_of fs ''role'' = Some (JStr r)"
  shows "(\<exists>m. messageSchema (Some (JObj fs)) = Inr m) = message_shape (Some (JObj fs))"
proof -
  consider "r = ''system''" | "r = ''assistant''" | "r = ''tool''" | "r = ''user''"
    | "r \<noteq> ''system''" "r \<noteq> ''assistant''" "r \<noteq> ''tool''" "r \<noteq> ''user''"
    by blast
  then show ?thesis
  proof cases
    case 1
    then show ?thesis
      by (simp add: messageSchema_role [OF assms] message_shape_role [OF assms]
          content_step_accepts)
  next
    case 2
    then show ?thesis
      by (simp add: messageSchema_role [OF assms] message_shape_role [OF assms]
          assistant_step_accepts)
  next
    case 3
    then show ?thesis
      by (simp add: messageSchema_role [OF assms] message_shape_role [OF assms]
          content_step_accepts)
  next
    case 4
    then show ?thesis
      by (simp add: messageSchema_role [OF assms] message_shape_role [OF assms]
          content_step_accepts)
  next
    case 5
    then show ?thesis
      by (simp add: messageSchema_role [OF assms] message_shape_role [OF assms])
  qed
qed

lemma messageSchema_accepts: "(\<exists>m. messageSchema j = Inr m) = message_shape j"
proof (cases j)
  case None
  then show ?thesis by (simp add: messageSchema_def message_shape_def)
next
  case (Some v)
  show ?thesis
  proof (cases v)
    case (JObj fs)
    show ?thesis
    proof (cases "map_of fs ''role''")
      case None
      with Some JObj show ?thesis by (simp add: messageSchema_def message_shape_def)
    next
      case role: (Some r)
      show ?thesis
      proof (cases r)
        case (JStr s)
        with role Some JObj show ?thesis by (simp add: messageSchema_accepts_role)
      qed (use Some JObj role in \<open>simp_all add: messageSchema_def message_shape_def\<close>)
    qed
  qed (use Some in \<open>simp_all add: messageSchema_def message_shape_def\<close>)
qed

lemma finish_reason_schema_string:
  "finish_reason_schema (Some (JStr s)) =
     (if s = ''stop'' then Inr Stop
      else if s = ''length'' then Inr Length
      else if s = ''content_filter'' then Inr Content_filter
      else if s = ''tool_calls'' then Inr Tool_calls
      else Inl ZodError)"
  unfolding finish_reason_schema_def by simp

lemma finish_reason_schema_accepts:
  "(\<exists>f. finish_reason_schema j = Inr f) =
     (j = Some (JStr ''stop'') \<or> j = Some (JStr ''length'') \<or>
      j = Some (JStr ''content_filter'') \<or> j = Some (JStr ''tool_calls''))"
proof (cases j)
  case None
  then show ?thesis by (simp add: finish_reason_schema_def)
next
  case (Some v)
  show ?thesis
  proof (cases v)
    case (JStr s)
    with Some show ?thesis by (simp add: finish_reason_schema_string)
  qed (use Some in \<open>simp_all add: finish_reason_schema_def\<close>)
qed

lemma two_steps_accept:
  "(\<exists>r. (case a of Inl e \<Rightarrow> Inl e
          | Inr x \<Rightarrow> (case b of Inl e \<Rightarrow> Inl e | Inr y \<Rightarrow> Inr (f x y))) = Inr r) =
     ((\<exists>x. a = Inr x) \<and> (\<exists>y. b = Inr y))"
  by (cases a; cases b) auto

lemma choice_schema_accepts: "(\<exists>c. choice_schema j = Inr c) = choice_shape j"
proof (cases j)
  case (JObj fs)
  then show ?thesis
    unfolding choice_schema_def choice_shape_def
    by (simp add: two_steps_accept messageSchema_accepts finish_reason_schema_accepts)
qed (simp_all add: choice_schema_def choice_shape_def)

lemma three_steps_accept:
  "(\<exists>r. (case a of Inl e \<Rightarrow> Inl e
          | Inr x \<Rightarrow>
              (case b of Inl e \<Rightarrow> Inl e
               | Inr y \<Rightarrow> (case c of Inl e \<Rightarrow> Inl e | Inr z \<Rightarrow> Inr (f x y z)))) = Inr r) =
     ((\<exists>x. a = Inr x) \<and> (\<exists>y. b = Inr y) \<and> (\<exists>z. c = Inr z))"
  by (cases a; cases b; cases c) auto

lemma usageSchema_accepts: "(\<exists>u. usageSchema j = Inr u) = usage_shape j"
proof (cases j)
  case None
  then show ?thesis by (simp add: usageSchema_def usage_shape_def)
next
  case (Some v)
  show ?thesis
  proof (cases v)
    case (JObj fs)
    with Some show ?thesis
      unfolding usageSchema_def usage_shape_def
      by (simp add: three_steps_accept z_number_accepts)
  qed (use Some in \<open>simp_all add: usageSchema_def usage_shape_def\<close>)
qed

lemma choices_schema_accepts:
  "(\<exists>cs. choices_schema j = Inr cs) =
     (case j of Some (JArr xs) \<Rightarrow> list_all choice_shape xs | _ \<Rightarrow> False)"
proof (cases j)
  case None
  then show ?thesis by (simp add: choices_schema_def)
next
  case (Some v)
  then show ?thesis
    by (cases v) (simp_all add: choices_schema_def z_array_accepts choice_schema_accepts)
qed

lemma five_steps_accept:
  "(\<exists>r. (case a of Inl e \<Rightarrow> Inl e
          | Inr x \<Rightarrow>
          (case b of Inl e \<Rightarrow> Inl e
          | Inr y \<Rightarrow>
          (case c of Inl e \<Rightarrow> Inl e
          | Inr z \<Rightarrow>
          (case d of Inl e \<Rightarrow> Inl e
          | Inr u \<Rightarrow>
          (case g of Inl e \<Rightarrow> Inl e | Inr w \<Rightarrow> Inr (f x y u w)))))) = Inr r) =
     ((\<exists>x. a = Inr x) \<and> (\<exists>y. b = Inr y) \<and> (\<exists>z. c = Inr z) \<and> (\<exists>u. d = Inr u) \<and>
      (\<exists>w. g = Inr w))"
  by (cases a; cases b; cases c; cases d; cases g) auto

lemma responseSchema_accepts: "(\<exists>r. responseSchema j = Inr r) = envelope_shape j"
proof (cases j)
  case (JObj fs)
  then show ?thesis
    unfolding responseSchema_def envelope_shape_def
    by (simp add: five_steps_accept z_string_accepts z_literal_unit choices_schema_accepts
        usageSchema_accepts)
qed (simp_all add: responseSchema_def envelope_shape_def)

lemma send_after_fetch:
  assumes "fetch_json h (send_request h config messages) = Inr j"
  shows "send h config messages =
           (if j = JNull then Inl TypeError
            else case get_prop j ''error'' of
                   None \<Rightarrow> responseSchema j
                 | Some v \<Rightarrow>
                     if truthy v then Inl (OpenAiError (JSON_stringify h j))
                     else responseSchema j)"
  using assms by (cases j) (auto simp add: send_def)

subsection \<open>The reference host\<close>

lemma reference_codec:
  "JSON_parse (reference_host b) = json_parse"
  "JSON_stringify (reference_host b) = stringify"
  "JSON_stringify_indent2 (reference_host b) = stringify_indent 0"
  by (simp_all add: reference_host_def)

lemma reference_send:
  "send (reference_host b) c ms =
     (if b = JNull then Inl TypeError
      else case get_prop b ''error'' of
             None \<Rightarrow> responseSchema b
           | Some v \<Rightarrow> if truthy v then Inl (OpenAiError (stringify b)) else responseSchema b)"
proof -
  have fetched: "fetch_json (reference_host b) (send_request (reference_host b) c ms) = Inr b"
    by (simp add: reference_host_def)
  have codec: "JSON_stringify (reference_host b) = stringify"
    by (simp add: reference_host_def)
  show ?thesis
    by (simp add: send_after_fetch [OF fetched] codec split: option.splits)
qed

lemma responseSchema_completion_stop:
  "responseSchema (completion c ''stop'') = Inr (completion_response c Stop)"
  by (simp add: completion_def completion_members_def completion_response_def
      responseSchema_def choices_schema_def choice_schema_def messageSchema_def
      finish_reason_schema_def usageSchema_def)

lemma responseSchema_completion_length:
  "responseSchema (completion c ''length'') = Inr (completion_response c Length)"
  by (simp add: completion_def completion_members_def completion_response_def
      responseSchema_def choices_schema_def choice_schema_def messageSchema_def
      finish_reason_schema_def usageSchema_def)

lemma completion_no_error:
  "completion c f \<noteq> JNull" "get_prop (completion c f) ''error'' = None"
  by (simp_all add: completion_def completion_members_def)

lemma send_completion_stop:
  "send (reference_host (completion c ''stop'')) cfg ms = Inr (completion_response c Stop)"
  by (simp add: reference_send completion_no_error responseSchema_completion_stop)

lemma send_completion_length:
  "send (reference_host (completion c ''length'')) cfg ms = Inr (completion_response c Length)"
  by (simp add: reference_send completion_no_error responseSchema_completion_length)

lemma responseSchema_odd_reply: "responseSchema odd_reply = Inr odd_response"
  by (simp add: odd_reply_def odd_response_def responseSchema_def choices_schema_def
      usageSchema_def)

lemma odd_reply_no_error:
  "odd_reply \<noteq> JNull" "get_prop odd_reply ''error'' = None"
  by (simp_all add: odd_reply_def)

lemma send_odd_reply: "send (reference_host odd_reply) cfg ms = Inr odd_response"
  by (simp add: reference_send responseSchema_odd_reply odd_reply_no_error)

lemma null_error_reply_error:
  "null_error_reply \<noteq> JNull" "get_prop null_error_reply ''error'' = Some JNull"
  by (simp_all add: null_error_reply_def)

lemma responseSchema_null_error_reply:
  "responseSchema null_error_reply = Inr (completion_response ''hi'' Stop)"
  by (simp add: null_error_reply_def completion_members_def completion_response_def
      responseSchema_def choices_schema_def choice_schema_def messageSchema_def
      finish_reason_schema_def usageSchema_def)

lemma send_null_error_reply:
  "send (reference_host null_error_reply) cfg ms = Inr (completion_response ''hi'' Stop)"
  by (simp add: reference_send null_error_reply_error responseSchema_null_error_reply)

lemma error_reply_error:
  "error_reply \<noteq> JNull"
  "get_prop error_reply ''error'' =
     Some (JObj [(''message'', JStr ''Incorrect API key provided''),
                 (''type'', JStr ''invalid_request_error'')])"
  by (simp_all add: error_reply_def)

lemma completion_choices:
  "choices (completion_response c f) = \<lparr>message = Assistant c None, finish_reason = f\<rparr> # []"
  by (simp add: completion_response_def)

lemma roundtrip_joke: "json_parse (stringify joke) = Inr joke"
  by code_simp

lemma roundtrip_joke_with_rating: "json_parse (stringify joke_with_rating) = Inr joke_with_rating"
  by code_simp

lemma parse_not_json: "json_parse ''not json'' = Inl SyntaxError"
  by code_simp

lemma parse_half_joke: \<open>json_parse ''{"body":"x"}'' = Inr (JObj [(''body'', JStr ''x'')])\<close>
  by code_simp

lemma indent_half_joke:
  \<open>stringify_indent 0 (JObj [(''body'', JStr ''x'')]) =
     ''{'' @ [CHR 0x0A] @ ''  "body": "x"'' @ [CHR 0x0A] @ ''}''\<close>
  by code_simp

lemma stringify_error_reply:
  \<open>stringify error_reply =
     ''{"error":{"message":"Incorrect API key provided","type":"invalid_request_error"}}''\<close>
  by code_simp

lemma joke_schema_joke: "parse joke_schema joke = Inr joke"
  by (simp add: joke_schema_def joke_def)

lemma joke_schema_joke_with_rating: "parse joke_schema joke_with_rating = Inr joke"
  by (simp add: joke_schema_def joke_def joke_with_rating_def)

lemma joke_schema_half_joke: "parse joke_schema (JObj [(''body'', JStr ''x'')]) = Inl ZodError"
  by (simp add: joke_schema_def)

section \<open>The claims\<close>

subsection \<open>C1: a schema-conforming answer is returned as the schema outputs it\<close>

text \<open>
  C1, as amended.  With a schema \<open>s\<close> supplied, when the first choice's content is
  \<^verbatim>\<open>JSON.stringify(V)\<close>, the runtime parses that text back to \<open>V\<close> and \<open>s\<close> accepts
  \<open>V\<close> with output \<open>t\<close>, the call resolves with \<open>t\<close>.  So it returns \<open>V\<close> itself
  exactly when the schema outputs \<open>V\<close> unchanged.
\<close>

theorem query_returns_schema_output:
  assumes "opt_chain config schema = Some s"
    and "send h (query_request_config config) (query_messages h userPrompt config) = Inr response"
    and "choices response = c # rest"
    and "content (message c) = JSON_stringify h V"
    and "JSON_parse h (JSON_stringify h V) = Inr V"
    and "parse s V = Inr t"
  shows "outcome (query h userPrompt config) = Resolved (Parsed t)"
  using assms by (simp add: query_outcome query_respond_def Let_def)

text \<open>The example of the entry script: the joke comes back as it was sent.\<close>

theorem query_returns_schema_output_witness:
  "outcome (query (reference_host (completion (stringify joke) ''stop'')) ''Tell me a joke''
     (Some joke_config)) = Resolved (Parsed joke)"
proof -
  let ?h = "reference_host (completion (stringify joke) ''stop'')"
  let ?c = "\<lparr>message = Assistant (stringify joke) None, finish_reason = Stop\<rparr>"
  have supplied: "opt_chain (Some joke_config) schema = Some joke_schema"
    by (simp add: joke_config_def)
  have sent: "send ?h (query_request_config (Some joke_config))
                (query_messages ?h ''Tell me a joke'' (Some joke_config)) =
              Inr (completion_response (stringify joke) Stop)"
    by (rule send_completion_stop)
  have first: "choices (completion_response (stringify joke) Stop) = ?c # []"
    by (rule completion_choices)
  have said: "content (message ?c) = JSON_stringify ?h joke"
    by (simp add: reference_codec)
  have again: "JSON_parse ?h (JSON_stringify ?h joke) = Inr joke"
    by (simp add: reference_codec roundtrip_joke)
  show ?thesis
    using query_returns_schema_output [OF supplied sent first said again joke_schema_joke] .
qed

text \<open>
  The claim as stated fails: the same schema accepts a joke that carries a rating, the
  content is that value serialised, and the call resolves with the joke without the
  rating.
\<close>

theorem query_returns_schema_output_counterexample:
  "parse joke_schema joke_with_rating = Inr joke \<and>
   outcome (query (reference_host (completion (stringify joke_with_rating) ''stop''))
     ''Tell me a joke'' (Some joke_config)) = Resolved (Parsed joke) \<and>
   joke \<noteq> joke_with_rating"
proof -
  let ?h = "reference_host (completion (stringify joke_with_rating) ''stop'')"
  have sent: "send ?h (query_request_config (Some joke_config))
                (query_messages ?h ''Tell me a joke'' (Some joke_config)) =
              Inr (completion_response (stringify joke_with_rating) Stop)"
    by (rule send_completion_stop)
  have "outcome (query ?h ''Tell me a joke'' (Some joke_config)) =
          snd (query_respond ?h (opt_chain (Some joke_config) schema)
                 (completion_response (stringify joke_with_rating) Stop))"
    by (rule query_outcome [OF sent])
  also have "\<dots> = Resolved (Parsed joke)"
    by (simp add: query_respond_def completion_response_def joke_config_def reference_codec
        roundtrip_joke_with_rating joke_schema_joke_with_rating)
  finally have "outcome (query ?h ''Tell me a joke'' (Some joke_config)) = Resolved (Parsed joke)" .
  moreover have "joke \<noteq> joke_with_rating"
    by (simp add: joke_def joke_with_rating_def)
  ultimately show ?thesis
    by (simp add: joke_schema_joke_with_rating)
qed

subsection \<open>C2: the response format that a schema adds\<close>

text \<open>
  C2, as amended.  With a schema supplied, the body of the request carries
  \<^verbatim>\<open>response_format: {type: "json_object"}\<close> whatever the caller overrides, unless the
  caller's \<^verbatim>\<open>openAiConfig\<close> has a \<^verbatim>\<open>response_format\<close> property of its own set to
  \<^verbatim>\<open>undefined\<close>: the caller's properties are spread last.
\<close>

theorem schema_adds_response_format:
  assumes "opt_chain config schema = Some s"
    and "case opt_chain config openAiConfig of
           None \<Rightarrow> True
         | Some override \<Rightarrow> response_format override \<noteq> Undefined"
  shows "sent (query h userPrompt config) =
           [send_request h (query_request_config config) (query_messages h userPrompt config)] \<and>
         body (send_request h (query_request_config config) (query_messages h userPrompt config)) =
           JSON_stringify h
             (JObj (request_members (query_request_config config)
                      (query_messages h userPrompt config))) \<and>
         map_of (request_members (query_request_config config)
                   (query_messages h userPrompt config)) ''response_format'' =
           Some (JObj [(''type'', JStr ''json_object'')])"
proof -
  have "response_format (query_request_config config) = Value Json_object"
  proof (cases "opt_chain config openAiConfig")
    case None
    with assms(1) show ?thesis
      by (simp add: query_request_config_def spread_def no_props_def DEFAULT_REQUEST_CONFIG_def)
  next
    case (Some override)
    with assms(2) have "response_format override \<noteq> Undefined" by simp
    then have "response_format override = Absent \<or> response_format override = Value Json_object"
      by (cases "response_format override") (auto intro: response_format.exhaust)
    with Some assms(1) show ?thesis
      by (auto simp add: query_request_config_def spread_def no_props_def DEFAULT_REQUEST_CONFIG_def)
  qed
  then show ?thesis
    by (simp add: query_sent send_request_def map_of_request_members_response_format)
qed

theorem schema_adds_response_format_witness:
  "map_of (request_members (query_request_config (Some warm_joke_config))
             (query_messages (reference_host error_reply) ''Tell me a joke''
                (Some warm_joke_config))) ''response_format'' =
     Some (JObj [(''type'', JStr ''json_object'')])"
proof -
  have supplied: "opt_chain (Some warm_joke_config) schema = Some joke_schema"
    by (simp add: warm_joke_config_def joke_config_def)
  have kept: "case opt_chain (Some warm_joke_config) openAiConfig of
                None \<Rightarrow> True
              | Some override \<Rightarrow> response_format override \<noteq> Undefined"
    by (simp add: warm_joke_config_def no_props_def)
  show ?thesis
    using schema_adds_response_format [OF supplied kept, of "reference_host error_reply"
        "''Tell me a joke''"]
    by simp
qed

text \<open>The claim as stated fails: an override of \<^verbatim>\<open>response_format\<close> itself, by
  \<^verbatim>\<open>undefined\<close>, takes the member out of the body although a schema is supplied.\<close>

theorem schema_adds_response_format_counterexample:
  "opt_chain (Some unset_format_config) schema = Some joke_schema \<and>
   response_format (query_request_config (Some unset_format_config)) = Undefined \<and>
   map_of (request_members (query_request_config (Some unset_format_config))
             (query_messages (reference_host error_reply) ''Tell me a joke''
                (Some unset_format_config))) ''response_format'' = None"
  by (simp add: map_of_request_members_response_format)
     (simp add: unset_format_config_def joke_config_def query_request_config_def spread_def
        no_props_def DEFAULT_REQUEST_CONFIG_def)

subsection \<open>C3: what the envelope validation accepts\<close>

text \<open>
  C3, as amended.  \<open>send\<close> accepts a decoded body exactly when it has the envelope
  shape and no truthy \<^verbatim>\<open>error\<close> member, where the shape is the one the schema declares:
  \<^verbatim>\<open>choices\<close> is any array of well-formed choices, the empty array included, and the
  three token counts are any numbers, negative and fractional ones included.
\<close>

theorem send_accepts_envelope_shape:
  assumes "fetch_json h (send_request h config messages) = Inr j"
  shows "(\<exists>r. send h config messages = Inr r) =
           (envelope_shape j \<and>
            (case get_prop j ''error'' of None \<Rightarrow> True | Some v \<Rightarrow> \<not> truthy v))"
proof (cases "j = JNull")
  case True
  with assms show ?thesis by (simp add: send_after_fetch envelope_shape_def)
next
  case False
  show ?thesis
  proof (cases "get_prop j ''error''")
    case None
    with False show ?thesis
      by (simp add: send_after_fetch [OF assms] responseSchema_accepts)
  next
    case (Some v)
    with False show ?thesis
      by (simp add: send_after_fetch [OF assms] responseSchema_accepts)
  qed
qed

theorem send_accepts_envelope_shape_witness:
  "envelope_shape (completion ''hi'' ''stop'') \<and>
   (\<exists>r. send (reference_host (completion ''hi'' ''stop'')) DEFAULT_REQUEST_CONFIG [User ''hi'']
          = Inr r)"
proof -
  let ?h = "reference_host (completion ''hi'' ''stop'')"
  have fetched: "fetch_json ?h (send_request ?h DEFAULT_REQUEST_CONFIG [User ''hi'']) =
                   Inr (completion ''hi'' ''stop'')"
    by (simp add: reference_host_def)
  have shaped: "envelope_shape (completion ''hi'' ''stop'')"
    by (simp add: completion_def completion_members_def envelope_shape_def choice_shape_def
        message_shape_def usage_shape_def)
  show ?thesis
    using send_accepts_envelope_shape [OF fetched] shaped
    by (simp add: completion_no_error)
qed

text \<open>The claim as stated fails: a body with no choice, a negative count and a
  fractional count is accepted.\<close>

theorem send_accepts_envelope_shape_counterexample:
  "send (reference_host odd_reply) DEFAULT_REQUEST_CONFIG [User ''hi''] = Inr odd_response \<and>
   get_prop odd_reply ''choices'' = Some (JArr []) \<and>
   choices odd_response = [] \<and>
   completion_tokens (usage odd_response) = - 1 \<and>
   prompt_tokens (usage odd_response) = 1 / 2"
  by (simp add: send_odd_reply) (simp add: odd_reply_def odd_response_def)

subsection \<open>C4: a content that does not parse ends the process\<close>

text \<open>
  C4.  With a schema supplied, when the first choice's content is not valid JSON, or is
  valid JSON that the schema rejects, the call ends in the exit of the process with
  status 1 and never in a rejection; the last thing printed on the error stream is
  \<^verbatim>\<open>Could not parse: \<close> followed by the content (as it is when it is not JSON, printed
  again with indentation when it is).
\<close>

theorem query_parse_failure_exits:
  assumes "opt_chain config schema = Some s"
    and "send h (query_request_config config) (query_messages h userPrompt config) = Inr response"
    and "choices response = c # rest"
    and "JSON_parse h (content (message c)) = Inl e \<or>
         (JSON_parse h (content (message c)) = Inr v \<and> parse s v = Inl e)"
  shows "outcome (query h userPrompt config) = Exited 1 \<and>
         (\<forall>x. outcome (query h userPrompt config) \<noteq> Rejected x) \<and>
         last (console (query h userPrompt config)) =
           Error (''Could not parse: '' @
                  (case JSON_parse h (content (message c)) of
                     Inl _ \<Rightarrow> content (message c)
                   | Inr w \<Rightarrow> JSON_stringify_indent2 h w))"
  using assms
  by (auto simp add: query_outcome query_console query_respond_def Let_def push_def)

theorem query_parse_failure_exits_witness:
  \<open>(outcome (query (reference_host (completion ''not json'' ''stop'')) ''Tell me a joke''
      (Some joke_config)) = Exited 1 \<and>
    last (console (query (reference_host (completion ''not json'' ''stop'')) ''Tell me a joke''
      (Some joke_config))) = Error ''Could not parse: not json'') \<and>
   (outcome (query (reference_host (completion ''{"body":"x"}'' ''stop'')) ''Tell me a joke''
      (Some joke_config)) = Exited 1 \<and>
    last (console (query (reference_host (completion ''{"body":"x"}'' ''stop''))
      ''Tell me a joke'' (Some joke_config))) =
      Error (''Could not parse: {'' @ [CHR 0x0A] @ ''  "body": "x"'' @ [CHR 0x0A] @ ''}''))\<close>
proof -
  have supplied: "opt_chain (Some joke_config) schema = Some joke_schema"
    by (simp add: joke_config_def)
  let ?h = "reference_host (completion ''not json'' ''stop'')"
  let ?c = "\<lparr>message = Assistant ''not json'' None, finish_reason = Stop\<rparr>"
  have sent: "send ?h (query_request_config (Some joke_config))
                (query_messages ?h ''Tell me a joke'' (Some joke_config)) =
              Inr (completion_response ''not json'' Stop)"
    by (rule send_completion_stop)
  have first: "choices (completion_response ''not json'' Stop) = ?c # []"
    by (rule completion_choices)
  have bad: "JSON_parse ?h (content (message ?c)) = Inl SyntaxError \<or>
             (JSON_parse ?h (content (message ?c)) = Inr JNull \<and>
              parse joke_schema JNull = Inl SyntaxError)"
    by (simp add: reference_codec parse_not_json)
  have one: "outcome (query ?h ''Tell me a joke'' (Some joke_config)) = Exited 1 \<and>
             last (console (query ?h ''Tell me a joke'' (Some joke_config))) =
               Error ''Could not parse: not json''"
    using query_parse_failure_exits [OF supplied sent first bad]
    by (simp add: reference_codec parse_not_json)
  let ?h' = \<open>reference_host (completion ''{"body":"x"}'' ''stop'')\<close>
  let ?c' = \<open>\<lparr>message = Assistant ''{"body":"x"}'' None, finish_reason = Stop\<rparr>\<close>
  have sent': \<open>send ?h' (query_request_config (Some joke_config))
                 (query_messages ?h' ''Tell me a joke'' (Some joke_config)) =
               Inr (completion_response ''{"body":"x"}'' Stop)\<close>
    by (rule send_completion_stop)
  have first': \<open>choices (completion_response ''{"body":"x"}'' Stop) = ?c' # []\<close>
    by (rule completion_choices)
  have bad': "JSON_parse ?h' (content (message ?c')) = Inl ZodError \<or>
              (JSON_parse ?h' (content (message ?c')) = Inr (JObj [(''body'', JStr ''x'')]) \<and>
               parse joke_schema (JObj [(''body'', JStr ''x'')]) = Inl ZodError)"
    by (simp add: reference_codec parse_half_joke joke_schema_half_joke)
  have two: \<open>outcome (query ?h' ''Tell me a joke'' (Some joke_config)) = Exited 1 \<and>
             last (console (query ?h' ''Tell me a joke'' (Some joke_config))) =
               Error (''Could not parse: {'' @ [CHR 0x0A] @ ''  "body": "x"'' @ [CHR 0x0A] @ ''}'')\<close>
    using query_parse_failure_exits [OF supplied sent' first' bad']
    by (simp add: reference_codec parse_half_joke indent_half_joke del: stringify_indent.simps)
  from one two show ?thesis by simp
qed

subsection \<open>C5: a provider error rejects the call before anything is parsed\<close>

text \<open>
  C5, as amended.  When the decoded body is an object whose \<^verbatim>\<open>error\<close> member holds a
  truthy value, \<open>send\<close> fails with the provider error whose message is the body
  serialised again, whether or not the body has the envelope shape; \<open>query\<close> rejects
  with that error and prints nothing.
\<close>

theorem provider_error_rejects_before_parsing:
  assumes "fetch_json h (send_request h (query_request_config config)
                           (query_messages h userPrompt config)) = Inr (JObj fs)"
    and "map_of fs ''error'' = Some v"
    and "truthy v"
  shows "send h (query_request_config config) (query_messages h userPrompt config) =
           Inl (OpenAiError (JSON_stringify h (JObj fs))) \<and>
         outcome (query h userPrompt config) =
           Rejected (OpenAiError (JSON_stringify h (JObj fs))) \<and>
         console (query h userPrompt config) = []"
proof -
  have "send h (query_request_config config) (query_messages h userPrompt config) =
          Inl (OpenAiError (JSON_stringify h (JObj fs)))"
    using assms by (simp add: send_after_fetch)
  then show ?thesis
    by (simp add: query_rejected)
qed

theorem provider_error_rejects_before_parsing_witness:
  \<open>outcome (query (reference_host error_reply) ''Tell me a joke'' (Some joke_config)) =
     Rejected (OpenAiError
       ''{"error":{"message":"Incorrect API key provided","type":"invalid_request_error"}}'') \<and>
   console (query (reference_host error_reply) ''Tell me a joke'' (Some joke_config)) = []\<close>
proof -
  let ?h = "reference_host error_reply"
  let ?fs = "[(''error'',
               JObj [(''message'', JStr ''Incorrect API key provided''),
                     (''type'', JStr ''invalid_request_error'')])]"
  let ?v = "JObj [(''message'', JStr ''Incorrect API key provided''),
                  (''type'', JStr ''invalid_request_error'')]"
  have fetched: "fetch_json ?h (send_request ?h (query_request_config (Some joke_config))
                   (query_messages ?h ''Tell me a joke'' (Some joke_config))) = Inr (JObj ?fs)"
    by (simp add: reference_host_def error_reply_def)
  have found: "map_of ?fs ''error'' = Some ?v"
    by simp
  have true: "truthy ?v"
    by simp
  have printed: "JSON_stringify ?h (JObj ?fs) = stringify error_reply"
    by (simp add: reference_codec error_reply_def del: stringify.simps)
  show ?thesis
    using provider_error_rejects_before_parsing [OF fetched found true]
    unfolding printed stringify_error_reply by simp
qed

text \<open>The claim as stated fails: a body that is a well-formed reply and also carries
  \<^verbatim>\<open>"error": null\<close> contains an error field, and the call returns its content.\<close>

theorem provider_error_rejects_before_parsing_counterexample:
  "get_prop null_error_reply ''error'' = Some JNull \<and>
   send (reference_host null_error_reply)
     (query_request_config (None :: json query_config option))
     (query_messages (reference_host null_error_reply) ''hi'' (None :: json query_config option)) =
     Inr (completion_response ''hi'' Stop) \<and>
   outcome (query (reference_host null_error_reply) ''hi'' (None :: json query_config option)) =
     Resolved (Raw ''hi'')"
proof -
  let ?h = "reference_host null_error_reply"
  have sent: "send ?h (query_request_config (None :: json query_config option))
                (query_messages ?h ''hi'' (None :: json query_config option)) =
              Inr (completion_response ''hi'' Stop)"
    by (rule send_null_error_reply)
  have "outcome (query ?h ''hi'' (None :: json query_config option)) =
          snd (query_respond ?h (opt_chain (None :: json query_config option) schema)
                 (completion_response ''hi'' Stop))"
    by (rule query_outcome [OF sent])
  also have "\<dots> = Resolved (Raw ''hi'')"
    by (simp add: query_respond_def completion_response_def)
  finally show ?thesis
    by (simp add: null_error_reply_error send_null_error_reply)
qed

subsection \<open>C6: without a schema the content is returned as it is\<close>

text \<open>
  C6.  With no schema supplied, a call whose response was validated and has a first
  choice resolves with exactly the content of that choice's message.
\<close>

theorem query_without_schema_returns_content:
  assumes "opt_chain config schema = None"
    and "send h (query_request_config config) (query_messages h userPrompt config) = Inr response"
    and "choices response = c # rest"
  shows "outcome (query h userPrompt config) = Resolved (Raw (content (message c)))"
  using assms by (simp add: query_outcome query_respond_def Let_def)

theorem query_without_schema_returns_content_witness:
  "outcome (query (reference_host (completion ''  Why  not?  '' ''stop'')) ''Tell me a joke''
     (None :: json query_config option)) = Resolved (Raw ''  Why  not?  '')"
proof -
  let ?h = "reference_host (completion ''  Why  not?  '' ''stop'')"
  let ?c = "\<lparr>message = Assistant ''  Why  not?  '' None, finish_reason = Stop\<rparr>"
  have absent: "opt_chain (None :: json query_config option) schema = None"
    by simp
  have sent: "send ?h (query_request_config (None :: json query_config option))
                (query_messages ?h ''Tell me a joke'' (None :: json query_config option)) =
              Inr (completion_response ''  Why  not?  '' Stop)"
    by (rule send_completion_stop)
  have first: "choices (completion_response ''  Why  not?  '' Stop) = ?c # []"
    by (rule completion_choices)
  show ?thesis
    using query_without_schema_returns_content [OF absent sent first] by simp
qed

subsection \<open>C7: the order of the messages\<close>

text \<open>
  C7, as amended.  The messages sent are, in this order: the JSON instruction as a system
  message when a schema is supplied, the caller's system prompt as a system message when
  it is supplied and not the empty string, and the user message with the user prompt,
  which is always there and always last.
\<close>

theorem query_messages_order:
  "query_messages h userPrompt config =
     (case opt_chain config schema of
        None \<Rightarrow> []
      | Some s \<Rightarrow>
          [System (''Only provide responses in valid JSON in terms of '' @
                   JSON_stringify h (zodToJsonSchema s) @ ''.'')]) @
     (case opt_chain config systemPrompt of
        None \<Rightarrow> []
      | Some p \<Rightarrow> if p = [] then [] else [System p]) @
     [User userPrompt] \<and>
   last (query_messages h userPrompt config) = User userPrompt \<and>
   sent (query h userPrompt config) =
     [send_request h (query_request_config config) (query_messages h userPrompt config)] \<and>
   map_of (request_members (query_request_config config) (query_messages h userPrompt config))
     ''messages'' = Some (JArr (map message_json (query_messages h userPrompt config)))"
  by (simp add: query_sent query_messages_def Let_def push_def map_of_request_members_messages
      split: option.splits)

theorem query_messages_order_witness:
  "query_messages (reference_host error_reply) ''Tell me a joke'' (Some brief_joke_config) =
     [System (''Only provide responses in valid JSON in terms of '' @
              stringify joke_json_schema @ ''.''),
      System ''Be brief.'',
      User ''Tell me a joke'']"
  using query_messages_order [of "reference_host error_reply" "''Tell me a joke''"
      "Some brief_joke_config"]
  by (simp add: brief_joke_config_def joke_config_def joke_schema_def reference_codec
      del: stringify.simps)

text \<open>The claim as stated fails: a system prompt that is supplied as the empty string
  adds no system message.\<close>

theorem query_messages_order_counterexample:
  "opt_chain (Some empty_system_config) systemPrompt = Some [] \<and>
   query_messages (reference_host error_reply) ''hi'' (Some empty_system_config) = [User ''hi'']"
  by (simp add: query_messages_def empty_system_config_def push_def)

subsection \<open>C8: merging the configuration\<close>

text \<open>
  C8.  Every field of the merged configuration is the caller's when the caller's
  override has it, and otherwise the default's (\<^verbatim>\<open>model\<close> is \<^verbatim>\<open>gpt-4-1106-preview\<close>,
  \<^verbatim>\<open>temperature\<close> is \<open>0\<close>, \<^verbatim>\<open>response_format\<close> is the flag of the schema); the body of
  the request lists the merged fields.
\<close>

theorem config_merge_later_source_wins:
  "model (query_request_config config) =
     (case opt_chain config openAiConfig of
        None \<Rightarrow> Value ''gpt-4-1106-preview''
      | Some override \<Rightarrow>
          if model override = Absent then Value ''gpt-4-1106-preview'' else model override) \<and>
   temperature (query_request_config config) =
     (case opt_chain config openAiConfig of
        None \<Rightarrow> Value 0
      | Some override \<Rightarrow>
          if temperature override = Absent then Value 0 else temperature override) \<and>
   frequency_penalty (query_request_config config) =
     (case opt_chain config openAiConfig of
        None \<Rightarrow> Absent
      | Some override \<Rightarrow> frequency_penalty override) \<and>
   top_p (query_request_config config) =
     (case opt_chain config openAiConfig of
        None \<Rightarrow> Absent
      | Some override \<Rightarrow> top_p override) \<and>
   response_format (query_request_config config) =
     (case opt_chain config openAiConfig of
        None \<Rightarrow> (case opt_chain config schema of None \<Rightarrow> Absent | Some s \<Rightarrow> Value Json_object)
      | Some override \<Rightarrow>
          if response_format override = Absent
          then (case opt_chain config schema of None \<Rightarrow> Absent | Some s \<Rightarrow> Value Json_object)
          else response_format override) \<and>
   sent (query h userPrompt config) =
     [send_request h (query_request_config config) (query_messages h userPrompt config)] \<and>
   body (send_request h (query_request_config config) (query_messages h userPrompt config)) =
     JSON_stringify h
       (JObj (json_member ''model'' JStr (model (query_request_config config)) @
              json_member ''response_format'' response_format_json
                (response_format (query_request_config config)) @
              json_member ''frequency_penalty'' JNum (frequency_penalty (query_request_config config)) @
              json_member ''temperature'' JNum (temperature (query_request_config config)) @
              json_member ''top_p'' JNum (top_p (query_request_config config)) @
              [(''messages'', JArr (map message_json (query_messages h userPrompt config)))]))"
  by (simp add: query_sent send_request_def request_members_def query_request_config_def
      spread_def no_props_def DEFAULT_REQUEST_CONFIG_def DEFAULT_TEMPERATURE_def overlay_cases
      split: option.splits)

text \<open>The example of the specification: an override of the temperature alone.\<close>

theorem config_merge_later_source_wins_witness:
  "model (query_request_config (Some warm_config)) = Value ''gpt-4-1106-preview'' \<and>
   temperature (query_request_config (Some warm_config)) = Value (7 / 10) \<and>
   body (send_request (reference_host error_reply) (query_request_config (Some warm_config))
           (query_messages (reference_host error_reply) ''hi'' (Some warm_config))) =
     stringify
       (JObj [(''model'', JStr ''gpt-4-1106-preview''),
              (''temperature'', JNum (7 / 10)),
              (''messages'',
               JArr [JObj [(''role'', JStr ''user''), (''content'', JStr ''hi'')]])])"
proof -
  have override: "opt_chain (Some warm_config) openAiConfig =
                    Some (no_props\<lparr>temperature := Value (7 / 10)\<rparr>)"
    by (simp add: warm_config_def)
  have prompt: "query_messages (reference_host error_reply) ''hi'' (Some warm_config) =
                  [User ''hi'']"
    by (simp add: query_messages_def warm_config_def push_def)
  have none: "opt_chain (Some warm_config) schema = None"
    by (simp add: warm_config_def)
  show ?thesis
    using config_merge_later_source_wins [of "Some warm_config" "reference_host error_reply"
        "''hi''"]
    unfolding override prompt none
    by (simp add: no_props_def reference_codec del: stringify.simps)
qed

subsection \<open>C9: a finish reason other than stop only warns\<close>

text \<open>
  C9.  When the first choice of the validated response has a finish reason other than
  \<^verbatim>\<open>stop\<close>, the call prints the warning first; what it prints after that and how it
  ends are what they are for the same response with the finish reason \<^verbatim>\<open>stop\<close>, and
  it does not end in a rejection.
\<close>

theorem query_finish_reason_only_warns:
  assumes "send h (query_request_config config) (query_messages h userPrompt config) = Inr response"
    and "choices response = c # rest"
    and "finish_reason c \<noteq> Stop"
  shows "console (query h userPrompt config) =
           Warn (''Unexpected finish reason: '' @ finish_reason_text (finish_reason c)) #
           fst (query_respond h (opt_chain config schema)
                  (response\<lparr>choices := c\<lparr>finish_reason := Stop\<rparr> # rest\<rparr>)) \<and>
         outcome (query h userPrompt config) =
           snd (query_respond h (opt_chain config schema)
                  (response\<lparr>choices := c\<lparr>finish_reason := Stop\<rparr> # rest\<rparr>)) \<and>
         (\<forall>x. outcome (query h userPrompt config) \<noteq> Rejected x)"
  using assms
  by (auto simp add: query_outcome query_console query_respond_def Let_def push_def
      split: option.splits sum.splits)

theorem query_finish_reason_only_warns_witness:
  "console (query (reference_host (completion ''Once upon a'' ''length'')) ''Tell me a story''
     (None :: json query_config option)) = [Warn ''Unexpected finish reason: length''] \<and>
   outcome (query (reference_host (completion ''Once upon a'' ''length'')) ''Tell me a story''
     (None :: json query_config option)) = Resolved (Raw ''Once upon a'')"
proof -
  let ?h = "reference_host (completion ''Once upon a'' ''length'')"
  let ?c = "\<lparr>message = Assistant ''Once upon a'' None, finish_reason = Length\<rparr>"
  have sent: "send ?h (query_request_config (None :: json query_config option))
                (query_messages ?h ''Tell me a story'' (None :: json query_config option)) =
              Inr (completion_response ''Once upon a'' Length)"
    by (rule send_completion_length)
  have first: "choices (completion_response ''Once upon a'' Length) = ?c # []"
    by (rule completion_choices)
  have cut: "finish_reason ?c \<noteq> Stop"
    by simp
  show ?thesis
    using query_finish_reason_only_warns [OF sent first cut]
    by (simp add: query_respond_def completion_response_def)
qed

subsection \<open>C10: only the first choice is read, and it is read unchecked\<close>

text \<open>
  C10.  For a validated response with at least one choice, the call does not end in a
  TypeError and the choices after the first have no influence on what it prints and how
  it ends.  For a validated response with no choice, the call rejects with a TypeError
  and prints nothing: it does not go through the handler that prints the diagnostic and
  exits.
\<close>

theorem query_reads_first_choice_only:
  assumes "send h (query_request_config config) (query_messages h userPrompt config) = Inr response"
  shows "case choices response of
           [] \<Rightarrow> outcome (query h userPrompt config) = Rejected TypeError \<and>
                 console (query h userPrompt config) = []
         | c # rest \<Rightarrow>
             outcome (query h userPrompt config) \<noteq> Rejected TypeError \<and>
             (\<forall>others.
                query_respond h (opt_chain config schema) (response\<lparr>choices := c # others\<rparr>) =
                (console (query h userPrompt config), outcome (query h userPrompt config)))"
  using assms
  by (auto simp add: query_outcome query_console query_respond_def Let_def push_def
      split: list.splits option.splits sum.splits)

theorem query_reads_first_choice_only_witness:
  "(outcome (query (reference_host odd_reply) ''Tell me a joke'' (Some joke_config)) =
      Rejected TypeError \<and>
    console (query (reference_host odd_reply) ''Tell me a joke'' (Some joke_config)) = []) \<and>
   outcome (query (reference_host (completion ''not json'' ''stop'')) ''Tell me a joke''
     (Some joke_config)) \<noteq> Rejected TypeError"
proof -
  let ?h = "reference_host odd_reply"
  have sent: "send ?h (query_request_config (Some joke_config))
                (query_messages ?h ''Tell me a joke'' (Some joke_config)) = Inr odd_response"
    by (rule send_odd_reply)
  have none: "choices odd_response = []"
    by (simp add: odd_response_def)
  have one: "outcome (query ?h ''Tell me a joke'' (Some joke_config)) = Rejected TypeError \<and>
             console (query ?h ''Tell me a joke'' (Some joke_config)) = []"
    using query_reads_first_choice_only [OF sent] by (simp add: none)
  let ?h' = "reference_host (completion ''not json'' ''stop'')"
  have sent': "send ?h' (query_request_config (Some joke_config))
                 (query_messages ?h' ''Tell me a joke'' (Some joke_config)) =
               Inr (completion_response ''not json'' Stop)"
    by (rule send_completion_stop)
  have two: "outcome (query ?h' ''Tell me a joke'' (Some joke_config)) \<noteq> Rejected TypeError"
    using query_reads_first_choice_only [OF sent'] by (simp add: completion_choices)
  from one two show ?thesis by simp
qed

end
